theory Spec2Isabelle
  imports Complex_Main "HOL-Library.AList"
begin

section \<open>The profile page: resume upload handler\<close>

text \<open>
  Source: \<^verbatim>\<open>apps/web/app/(main)/profile/page.tsx\<close> (component \<^verbatim>\<open>ProfilePage\<close>) and
  \<^verbatim>\<open>apps/web/lib/types.ts\<close>.

  \<^verbatim>\<open>export type ResumeState = 'uploaded' | 'scanned' | 'parsed' | 'failed';\<close>
\<close>

datatype ResumeState = uploaded | scanned | parsed | failed

text \<open>
  The browser's \<^verbatim>\<open>File\<close> object, as far as the page can observe it: its name, its mime
  type (\<^verbatim>\<open>file.type\<close>) and its content, a list of bytes (0 to 255 each); its size in
  bytes (\<^verbatim>\<open>file.size\<close>) is the length of the content. The handler reads the type only.
\<close>

type_synonym byte = nat

record File =
  name :: string
  type :: string
  bytes :: "byte list"

definition size_File :: "File \<Rightarrow> nat" where
  "size_File f = length (bytes f)"

text \<open>
  The three \<^verbatim>\<open>useState\<close> cells of \<^verbatim>\<open>ProfilePage\<close> that the upload handler reads or
  writes. \<^verbatim>\<open>null\<close> is \<open>None\<close>.
  \<^verbatim>\<open>
  const [resumeState, setResumeState] = useState<ResumeState | null>(null);
  const [uploadError, setUploadError] = useState<string | null>(null);
  const [uploading, setUploading] = useState(false);
  \<close>
\<close>

record page_state =
  resumeState :: "ResumeState option"
  uploadError :: "string option"
  uploading :: bool

definition initial_page :: page_state where
  "initial_page = \<lparr>resumeState = None, uploadError = None, uploading = False\<rparr>"

text \<open>
  What the handler does, in program order: a call of a state setter, or an
  \<^verbatim>\<open>await new Promise((r) => setTimeout(r, ms))\<close>, at which the handler is suspended and
  other events of the page may run.
\<close>

datatype action =
    SetUploadError "string option"
  | SetUploading bool
  | SetResumeState ResumeState
  | Await nat

definition allowed :: "string list" where
  "allowed =
     [''application/pdf'',
      ''application/vnd.openxmlformats-officedocument.wordprocessingml.document'']"

text \<open>
  \<^verbatim>\<open>
  const handleFile = useCallback(
    async (file: File) => {
      if (!file || uploading) return;
      const allowed = [
        'application/pdf',
        'application/vnd.openxmlformats-officedocument.wordprocessingml.document',
      ];
      if (!allowed.includes(file.type)) {
        setUploadError('Please upload a PDF or DOCX file.');
        return;
      }
      setUploadError(null);
      setUploading(true);
      setResumeState('uploaded');
      // MVP: simulate pipeline; replace with real API when P1 is available
      await new Promise((r) => setTimeout(r, 600));
      setResumeState('scanned');
      await new Promise((r) => setTimeout(r, 800));
      setResumeState('parsed');
      setUploading(false);
    },
    [uploading],
  );
  \<close>
  The argument is \<open>None\<close> for a null or undefined file (the \<^verbatim>\<open>!file\<close> test). The
  \<^verbatim>\<open>uploading\<close> that the closure reads is the one of the page state the handler was
  created for (the dependency list \<^verbatim>\<open>[uploading]\<close> recreates it whenever the flag changes).
  The result is the list of actions of this invocation, in order.
\<close>

definition handleFile :: "File option \<Rightarrow> page_state \<Rightarrow> action list" where
  "handleFile file st =
     (case file of
        None \<Rightarrow> []
      | Some f \<Rightarrow>
          if uploading st then []
          else if type f \<notin> set allowed then
            [SetUploadError (Some ''Please upload a PDF or DOCX file.'')]
          else
            [SetUploadError None,
             SetUploading True,
             SetResumeState uploaded,
             Await 600,
             SetResumeState scanned,
             Await 800,
             SetResumeState parsed,
             SetUploading False])"

text \<open>The effect of one action on the page state; waiting changes nothing.\<close>

fun exec :: "action \<Rightarrow> page_state \<Rightarrow> page_state" where
  "exec (SetUploadError e) st = st\<lparr>uploadError := e\<rparr>"
| "exec (SetUploading b) st = st\<lparr>uploading := b\<rparr>"
| "exec (SetResumeState r) st = st\<lparr>resumeState := Some r\<rparr>"
| "exec (Await ms) st = st"

text \<open>Running a list of actions with nothing else interleaved: the state at the end.\<close>

fun run :: "page_state \<Rightarrow> action list \<Rightarrow> page_state" where
  "run st [] = st"
| "run st (a # as) = run (exec a st) as"

text \<open>The resume states an invocation writes, in order.\<close>

fun resume_writes :: "action list \<Rightarrow> ResumeState list" where
  "resume_writes [] = []"
| "resume_writes (SetResumeState r # as) = r # resume_writes as"
| "resume_writes (a # as) = resume_writes as"

text \<open>The error messages an invocation sets (not the clearing of the message).\<close>

fun error_writes :: "action list \<Rightarrow> string list" where
  "error_writes [] = []"
| "error_writes (SetUploadError (Some m) # as) = m # error_writes as"
| "error_writes (a # as) = error_writes as"

text \<open>
  The order of the lifecycle, from the comment above \<^verbatim>\<open>RESUME_STATE_LABELS\<close>:
  \<^verbatim>\<open>/** Resume pipeline states per design: UPLOADED -> SCANNED -> PARSED | FAILED */\<close>
\<close>

fun stage :: "ResumeState \<Rightarrow> nat" where
  "stage uploaded = 0"
| "stage scanned = 1"
| "stage parsed = 2"
| "stage failed = 2"

subsection \<open>The page as a system: invocations interleaved at the awaits\<close>

text \<open>
  JavaScript runs an async function up to its next \<^verbatim>\<open>await\<close> without interruption; at
  the \<^verbatim>\<open>await\<close> the rest of the function is suspended until its timer fires, and other
  events (another drop, another file chosen) may run in between. The system is the page
  state and the suspended remainders of the invocations in flight, each starting at
  the \<open>Await\<close> it is suspended on.
\<close>

record system =
  page :: page_state
  tasks :: "action list list"

definition initial_system :: system where
  "initial_system = \<lparr>page = initial_page, tasks = []\<rparr>"

fun is_await :: "action \<Rightarrow> bool" where
  "is_await (Await ms) = True"
| "is_await a = False"

text \<open>
  Run a handler body up to its next \<open>Await\<close>; what is left, if anything, is suspended.
\<close>

definition proceed :: "action list \<Rightarrow> system \<Rightarrow> system" where
  "proceed acts sys =
     (let now = takeWhile (\<lambda>a. \<not> is_await a) acts;
          later = dropWhile (\<lambda>a. \<not> is_await a) acts
      in \<lparr>page = run (page sys) now,
          tasks = (if later = [] then tasks sys else tasks sys @ [later])\<rparr>)"

text \<open>
  An event of the page (drop, or file input change) calls the handler. The handler is
  given the page state of the moment. On the real page the closure reads the flag of the
  last render: between the \<^verbatim>\<open>setUploading(false)\<close> of a finishing run and the next
  render it still reads \<^verbatim>\<open>true\<close> and ignores a call that is accepted here. Every state
  of the real page is therefore reachable here, and what holds of all reachable states
  holds of the page.
\<close>

definition invoke :: "File option \<Rightarrow> system \<Rightarrow> system" where
  "invoke file sys = proceed (handleFile file (page sys)) sys"

text \<open>The timer of the \<open>i\<close>-th suspended invocation fires: it continues after its \<open>Await\<close>.\<close>

definition wake :: "nat \<Rightarrow> system \<Rightarrow> system" where
  "wake i sys =
     (if i < length (tasks sys) then
        proceed (tl (tasks sys ! i))
          (sys\<lparr>tasks := take i (tasks sys) @ drop (Suc i) (tasks sys)\<rparr>)
      else sys)"

inductive reachable :: "system \<Rightarrow> bool" where
  start: "reachable initial_system"
| call: "reachable sys \<Longrightarrow> reachable (invoke file sys)"
| timer: "reachable sys \<Longrightarrow> i < length (tasks sys) \<Longrightarrow> reachable (wake i sys)"

subsection \<open>The lifecycle of the specification, for comparison\<close>

text \<open>
  The specification's data model gives the state of a resume as one of
  \<^verbatim>\<open>UPLOADED | SCANNING | SCANNED | EXTRACTING | PARSING | PARSED | FAILED\<close>. The states
  of the source are read into it by name.
\<close>

datatype LifecycleState = UPLOADED | SCANNING | SCANNED | EXTRACTING | PARSING | PARSED | FAILED

fun lifecycle_of :: "ResumeState \<Rightarrow> LifecycleState" where
  "lifecycle_of uploaded = UPLOADED"
| "lifecycle_of scanned = SCANNED"
| "lifecycle_of parsed = PARSED"
| "lifecycle_of failed = FAILED"

text \<open>
  Modelled from the spec: the Malware Scanner (section 4.2) is not in the source. Its
  contract is that, given raw bytes, it returns \<^verbatim>\<open>Clean\<close> or \<^verbatim>\<open>Rejected(reason)\<close>.
  Only the verdict type is modelled; the scanner itself is a parameter of the statements
  that speak of it.
\<close>

datatype ScanVerdict = Clean | Rejected string

text \<open>Example inputs.\<close>

definition pdf_mime :: string where
  "pdf_mime = ''application/pdf''"

definition docx_mime :: string where
  "docx_mime = ''application/vnd.openxmlformats-officedocument.wordprocessingml.document''"

definition skills_docx :: File where
  "skills_docx =
     \<lparr>name = ''resume.docx'', type = docx_mime,
      bytes = map of_char ''Skills: Python, FastAPI''\<rparr>"

definition photo_png :: File where
  "photo_png = \<lparr>name = ''photo.png'', type = ''image/png'', bytes = [137, 80, 78, 71]\<rparr>"

definition huge_pdf :: File where
  "huge_pdf =
     \<lparr>name = ''huge.pdf'', type = pdf_mime,
      bytes = map of_char ''%PDF-'' @ replicate 20000000 0\<rparr>"

definition infected_pdf :: File where
  "infected_pdf =
     \<lparr>name = ''invoice.pdf'', type = pdf_mime,
      bytes = map of_char ''EICAR-STANDARD-ANTIVIRUS-TEST-FILE''\<rparr>"

text \<open>An example scanner: it rejects content that starts with the test marker.\<close>

definition marker_scanner :: "byte list \<Rightarrow> ScanVerdict" where
  "marker_scanner b =
     (if take 5 b = map of_char ''EICAR'' then Rejected ''EICAR-Test-File'' else Clean)"

text \<open>The page state in the middle of an upload, after the first \<open>Await\<close>.\<close>

definition busy_page :: page_state where
  "busy_page = \<lparr>resumeState = Some uploaded, uploadError = None, uploading = True\<rparr>"

text \<open>
  The two suspended remainders of an accepted invocation: after the first and after the
  second \<open>Await\<close>.
\<close>

definition suspended_at_scan :: "action list" where
  "suspended_at_scan =
     [Await 600, SetResumeState scanned, Await 800, SetResumeState parsed, SetUploading False]"

definition suspended_at_parse :: "action list" where
  "suspended_at_parse = [Await 800, SetResumeState parsed, SetUploading False]"

text \<open>
  The invariant of the page: the flag \<^verbatim>\<open>uploading\<close> is set exactly while one invocation
  is suspended, the state shown is then the one that invocation wrote last, and the state
  \<^verbatim>\<open>'failed'\<close> is never shown.
\<close>

definition in_flight_inv :: "system \<Rightarrow> bool" where
  "in_flight_inv sys \<longleftrightarrow>
     resumeState (page sys) \<noteq> Some failed \<and>
     (if uploading (page sys)
      then tasks sys = [suspended_at_scan] \<and> resumeState (page sys) = Some uploaded \<or>
           tasks sys = [suspended_at_parse] \<and> resumeState (page sys) = Some scanned
      else tasks sys = [])"

section \<open>The API client\<close>

text \<open>
  Source: \<^verbatim>\<open>apps/web/lib/api-client.ts\<close>.

  JSON values as \<^verbatim>\<open>JSON.parse\<close> returns them; an object is the list of its own
  properties. A number is a double, and every double is a real; the client never inspects
  a number.
\<close>

datatype json =
    JNull
  | JBool bool
  | JNumber real
  | JString string
  | JArray "json list"
  | JObject "(string \<times> json) list"

text \<open>
  What a \<^verbatim>\<open>throw\<close> or a rejected promise carries: an \<^verbatim>\<open>Error\<close> object with its
  message, or any other value (\<^verbatim>\<open>err instanceof Error\<close> is false).
\<close>

datatype thrown = Error string | NotAnError

text \<open>
  The \<^verbatim>\<open>Response\<close> of \<^verbatim>\<open>fetch\<close>: its status, its status text, and what
  \<^verbatim>\<open>await res.text()\<close> gives: the body, or the rejection when the body cannot be read
  (the connection is lost or the request is aborted after the headers have arrived;
  \<^verbatim>\<open>fetch\<close> resolves as soon as the headers are there). \<^verbatim>\<open>res.ok\<close> is true for the
  statuses 200 to 299.
\<close>

record Response =
  status :: nat
  statusText :: string
  text_of :: "thrown + string"

definition ok :: "Response \<Rightarrow> bool" where
  "ok res \<longleftrightarrow> 200 \<le> status res \<and> status res \<le> 299"

text \<open>
  \<^verbatim>\<open>options: RequestInit & { token?: string | null }\<close>, and the request that reaches
  \<^verbatim>\<open>fetch\<close>: \<^verbatim>\<open>fetch(url, { ...init, headers, credentials: 'include' })\<close>.
\<close>

record RequestInit =
  http_method :: "string option"
  headers :: "(string \<times> string) list"
  body :: "string option"
  token :: "string option"

record Request =
  url :: string
  request_method :: "string option"
  request_headers :: "(string \<times> string) list"
  request_body :: "string option"
  credentials :: string

text \<open>\<^verbatim>\<open>import { API_BASE, API_PREFIX } from './config';\<close> (the file is not in the source).\<close>

record config =
  API_BASE :: string
  API_PREFIX :: string

text \<open>
  \<^verbatim>\<open>export type ApiError = { detail: string | { code?: string; message?: string };
                           statusCode: number };\<close>
  At run time \<^verbatim>\<open>detail\<close> is whatever JSON value the body holds.
\<close>

record ApiError =
  detail :: json
  statusCode :: nat

text \<open>
  The object \<^verbatim>\<open>apiRequest\<close> returns: \<^verbatim>\<open>{ data }\<close>, whose \<^verbatim>\<open>data\<close> may be
  \<^verbatim>\<open>undefined\<close> (\<open>None\<close>), or \<^verbatim>\<open>{ error }\<close>.
\<close>

datatype api_result = DataResult "json option" | ErrorResult ApiError

text \<open>
  \<^verbatim>\<open>
  async function parseResponse<T>(res: Response): Promise<T> {
    const text = await res.text();
    if (!text) return undefined as T;
    try {
      return JSON.parse(text) as T;
    } catch {
      return undefined as T;
    }
  }
  \<close>
  \<^verbatim>\<open>JSON.parse\<close> is a parameter: \<open>None\<close> where it throws. The \<^verbatim>\<open>await res.text()\<close>
  stands outside the \<^verbatim>\<open>try\<close>, so its rejection is the rejection of \<^verbatim>\<open>parseResponse\<close>
  (\<open>Inl\<close>).
\<close>

definition parseResponse :: "(string \<Rightarrow> json option) \<Rightarrow> Response \<Rightarrow> thrown + json option" where
  "parseResponse JSON_parse res =
     (case text_of res of
        Inl e \<Rightarrow> Inl e
      | Inr t \<Rightarrow> Inr (if t = [] then None else JSON_parse t))"

text \<open>
  \<^verbatim>\<open>typeof data === 'object' && data && 'detail' in data
       ? (data as { detail: ApiError['detail'] }).detail : res.statusText\<close>
  An array is an object without a property \<^verbatim>\<open>detail\<close>; \<^verbatim>\<open>null\<close> is an object, but falsy.
\<close>

fun detail_of :: "json option \<Rightarrow> string \<Rightarrow> json" where
  "detail_of (Some (JObject kvs)) st =
     (case map_of kvs ''detail'' of Some d \<Rightarrow> d | None \<Rightarrow> JString st)"
| "detail_of d st = JString st"

text \<open>
  \<^verbatim>\<open>
  export async function apiRequest<T>(path, options = {}) {
    const { token, ...init } = options;
    const url = `${API_BASE}${API_PREFIX}${path}`;
    const headers: HeadersInit = {
      'Content-Type': 'application/json',
      ...(init.headers as Record<string, string>),
    };
    if (token) headers['Authorization'] = `Bearer ${token}`;
    let res: Response;
    try {
      res = await fetch(url, { ...init, headers, credentials: 'include' });
    } catch (err) {
      const message = err instanceof Error ? err.message : 'Failed to fetch';
      return { error: { detail:
          `Network error. Check API URL and CORS settings. (${message})`, statusCode: 0 } };
    }
    const data = await parseResponse<T>(res);
    if (!res.ok) {
      const detail = ... ;
      return { error: { detail: detail, statusCode: res.status } };
    }
    return { data: data as T };
  }
  \<close>
  \<^verbatim>\<open>fetch\<close> is a parameter: \<open>Inl\<close> where it throws or rejects. The result is \<open>Inl\<close> where
  the promise of \<^verbatim>\<open>apiRequest\<close> is rejected. An empty token is falsy.
\<close>

definition apiRequest ::
  "config \<Rightarrow> (string \<Rightarrow> json option) \<Rightarrow> (Request \<Rightarrow> thrown + Response) \<Rightarrow>
   string \<Rightarrow> RequestInit \<Rightarrow> thrown + api_result" where
  "apiRequest cfg JSON_parse fetch path options =
     (let url = API_BASE cfg @ API_PREFIX cfg @ path;
          headers0 = fold (\<lambda>(k, v). AList.update k v) (headers options)
                       [(''Content-Type'', ''application/json'')];
          headers1 = (case token options of
                        None \<Rightarrow> headers0
                      | Some t \<Rightarrow>
                          if t \<noteq> [] then AList.update ''Authorization'' (''Bearer '' @ t) headers0
                          else headers0)
      in case fetch \<lparr>url = url, request_method = http_method options, request_headers = headers1,
                     request_body = body options, credentials = ''include''\<rparr> of
           Inl err \<Rightarrow>
             (let message = (case err of Error m \<Rightarrow> m | NotAnError \<Rightarrow> ''Failed to fetch'')
              in Inr (ErrorResult
                   \<lparr>detail = JString (''Network error. Check API URL and CORS settings. (''
                                        @ message @ '')''),
                    statusCode = 0\<rparr>))
         | Inr res \<Rightarrow>
             (case parseResponse JSON_parse res of
                Inl e \<Rightarrow> Inl e
              | Inr data \<Rightarrow>
                  if \<not> ok res then
                    Inr (ErrorResult \<lparr>detail = detail_of data (statusText res),
                                      statusCode = status res\<rparr>)
                  else Inr (DataResult data)))"

text \<open>Example inputs: a reply whose headers arrive and whose body is then lost.\<close>

definition local_config :: config where
  "local_config = \<lparr>API_BASE = ''http://localhost:8000'', API_PREFIX = ''/v1''\<rparr>"

definition no_options :: RequestInit where
  "no_options = \<lparr>http_method = None, headers = [], body = None, token = None\<rparr>"

definition body_lost :: "Request \<Rightarrow> thrown + Response" where
  "body_lost req = Inr \<lparr>status = 200, statusText = ''OK'', text_of = Inl (Error ''network error'')\<rparr>"

section \<open>The Active-Resume Resolver of the specification\<close>

text \<open>
  Modelled from the spec: the Resume Record Store, the terminal transitions of the
  Pipeline Orchestrator and the Active-Resume Resolver (sections 3, 4.1 and 4.5 of the
  specification) are missing from the source, whose profile page only shows, in the state
  \<^verbatim>\<open>'failed'\<close>, the sentence "You can re-upload. Your last successful resume remains
  active."

  Section 3: a ResumeDocument has an owner, a content reference, a mime type and a byte
  size, a state, an error code and message "set only when state = FAILED", a result
  reference "set only when state = PARSED", and the times of creation and of the last
  transition. The ActiveResumePointer, one per user, names a resume id.
\<close>

type_synonym resume_id = nat
type_synonym user_id = nat
type_synonym timestamp = nat

datatype ErrorCode = MalwareDetected | ScanUnavailable | ExtractionFailed | ParsingFailed

record ResumeDocument =
  owner_id :: user_id
  content_ref :: nat
  mime_type :: string
  byte_size :: nat
  state :: LifecycleState
  error_code :: "ErrorCode option"
  error_message :: "string option"
  result_ref :: "nat option"
  created_at :: timestamp
  updated_at :: timestamp

record backend =
  records :: "resume_id \<rightharpoonup> ResumeDocument"
  active :: "user_id \<rightharpoonup> resume_id"

text \<open>
  Modelled from the spec: section 4.5, "on_parsed(resume_id, owner_id, submitted_at)
  updates the pointer for owner_id to resume_id only if submitted_at is greater than or
  equal to the submission time of the resume currently pointed to"; with no resume
  pointed to, or none on record, there is no such time and the pointer is set.
  "on_failed never touches the pointer".
\<close>

definition on_parsed :: "resume_id \<Rightarrow> user_id \<Rightarrow> timestamp \<Rightarrow> backend \<Rightarrow> backend" where
  "on_parsed rid owner submitted_at b =
     (case active b owner of
        None \<Rightarrow> b\<lparr>active := (active b)(owner \<mapsto> rid)\<rparr>
      | Some cur \<Rightarrow>
          (case records b cur of
             None \<Rightarrow> b\<lparr>active := (active b)(owner \<mapsto> rid)\<rparr>
           | Some d \<Rightarrow>
               if created_at d \<le> submitted_at then b\<lparr>active := (active b)(owner \<mapsto> rid)\<rparr>
               else b))"

definition on_failed :: "resume_id \<Rightarrow> user_id \<Rightarrow> backend \<Rightarrow> backend" where
  "on_failed rid owner b = b"

text \<open>
  Modelled from the spec: section 2, "on success the Active-Resume Resolver is updated; on
  terminal failure the record stops at FAILED and the previous active resume (if any) is
  untouched". The last transition of a run persists the new state with what the stage
  produced (section 4.1) and tells the resolver. A resume id that is not on record
  changes nothing.
\<close>

definition complete_parsed :: "resume_id \<Rightarrow> nat \<Rightarrow> timestamp \<Rightarrow> backend \<Rightarrow> backend" where
  "complete_parsed rid profile now b =
     (case records b rid of
        None \<Rightarrow> b
      | Some d \<Rightarrow>
          on_parsed rid (owner_id d) (created_at d)
            (b\<lparr>records := (records b)
                 (rid \<mapsto> d\<lparr>state := PARSED, result_ref := Some profile, updated_at := now\<rparr>)\<rparr>))"

definition complete_failed ::
  "resume_id \<Rightarrow> ErrorCode \<Rightarrow> string \<Rightarrow> timestamp \<Rightarrow> backend \<Rightarrow> backend" where
  "complete_failed rid code msg now b =
     (case records b rid of
        None \<Rightarrow> b
      | Some d \<Rightarrow>
          on_failed rid (owner_id d)
            (b\<lparr>records := (records b)
                 (rid \<mapsto> d\<lparr>state := FAILED, error_code := Some code,
                           error_message := Some msg, updated_at := now\<rparr>)\<rparr>))"

text \<open>
  Example: user 7 has resume 1, parsed and active, and has uploaded resume 2 later, which
  is being parsed.
\<close>

definition first_resume :: ResumeDocument where
  "first_resume =
     \<lparr>owner_id = 7, content_ref = 100, mime_type = pdf_mime, byte_size = 2048,
      state = PARSED, error_code = None, error_message = None, result_ref = Some 500,
      created_at = 10, updated_at = 13\<rparr>"

definition second_resume :: ResumeDocument where
  "second_resume =
     \<lparr>owner_id = 7, content_ref = 101, mime_type = docx_mime, byte_size = 4096,
      state = PARSING, error_code = None, error_message = None, result_ref = None,
      created_at = 20, updated_at = 22\<rparr>"

definition reupload_backend :: backend where
  "reupload_backend =
     \<lparr>records = [1 \<mapsto> first_resume, 2 \<mapsto> second_resume], active = [7 \<mapsto> 1]\<rparr>"

section \<open>Properties of the upload handler\<close>

subsection \<open>The three ways an invocation can go\<close>

lemma handleFile_busy: "uploading st \<Longrightarrow> handleFile file st = []"
  by (simp add: handleFile_def split: option.split)

lemma handleFile_reject:
  "\<not> uploading st \<Longrightarrow> type f \<notin> set allowed \<Longrightarrow>
   handleFile (Some f) st = [SetUploadError (Some ''Please upload a PDF or DOCX file.'')]"
  by (simp add: handleFile_def)

lemma handleFile_accept:
  "\<not> uploading st \<Longrightarrow> type f \<in> set allowed \<Longrightarrow>
   handleFile (Some f) st =
     [SetUploadError None, SetUploading True, SetResumeState uploaded, Await 600,
      SetResumeState scanned, Await 800, SetResumeState parsed, SetUploading False]"
  by (simp add: handleFile_def)

lemma handleFile_cases:
  "handleFile file st = [] \<or>
   handleFile file st = [SetUploadError (Some ''Please upload a PDF or DOCX file.'')] \<or>
   handleFile file st =
     [SetUploadError None, SetUploading True, SetResumeState uploaded, Await 600,
      SetResumeState scanned, Await 800, SetResumeState parsed, SetUploading False]"
  by (simp add: handleFile_def split: option.split)

lemma member_allowed: "t \<in> set allowed \<longleftrightarrow> t = pdf_mime \<or> t = docx_mime"
  by (auto simp: allowed_def pdf_mime_def docx_mime_def)

subsection \<open>Steps of the system\<close>

lemma invoke_busy: "uploading (page sys) \<Longrightarrow> invoke file sys = sys"
  by (simp add: invoke_def handleFile_busy proceed_def)

lemma invoke_None: "invoke None sys = sys"
  by (simp add: invoke_def handleFile_def proceed_def)

lemma invoke_reject:
  "\<not> uploading (page sys) \<Longrightarrow> type f \<notin> set allowed \<Longrightarrow>
   invoke (Some f) sys =
     sys\<lparr>page := (page sys)\<lparr>uploadError := Some ''Please upload a PDF or DOCX file.''\<rparr>\<rparr>"
  by (simp add: invoke_def handleFile_reject proceed_def)

lemma invoke_accept:
  "\<not> uploading (page sys) \<Longrightarrow> type f \<in> set allowed \<Longrightarrow>
   invoke (Some f) sys =
     \<lparr>page = (page sys)\<lparr>uploadError := None, uploading := True, resumeState := Some uploaded\<rparr>,
      tasks = tasks sys @ [suspended_at_scan]\<rparr>"
  by (simp add: invoke_def handleFile_accept proceed_def suspended_at_scan_def)

lemma wake_scan:
  "tasks sys = [suspended_at_scan] \<Longrightarrow>
   wake 0 sys = \<lparr>page = (page sys)\<lparr>resumeState := Some scanned\<rparr>, tasks = [suspended_at_parse]\<rparr>"
  by (simp add: wake_def proceed_def suspended_at_scan_def suspended_at_parse_def)

lemma wake_parse:
  "tasks sys = [suspended_at_parse] \<Longrightarrow>
   wake 0 sys = \<lparr>page = (page sys)\<lparr>resumeState := Some parsed, uploading := False\<rparr>, tasks = []\<rparr>"
  by (simp add: wake_def proceed_def suspended_at_parse_def)

subsection \<open>The invariant holds in every reachable state\<close>

lemma in_flight_inv_invoke:
  assumes "in_flight_inv sys"
  shows "in_flight_inv (invoke file sys)"
proof (cases "file")
  case None
  with assms show ?thesis by (simp add: invoke_None)
next
  case (Some f)
  show ?thesis
  proof (cases "uploading (page sys)")
    case True
    with assms show ?thesis by (simp add: invoke_busy)
  next
    case False
    then have idle: "tasks sys = []" and shown: "resumeState (page sys) \<noteq> Some failed"
      using assms by (simp_all add: in_flight_inv_def)
    show ?thesis
    proof (cases "type f \<in> set allowed")
      case True
      with False idle show ?thesis
        unfolding Some by (simp add: invoke_accept in_flight_inv_def)
    next
      case unsupported: False
      with False idle shown show ?thesis
        unfolding Some by (simp add: invoke_reject in_flight_inv_def)
    qed
  qed
qed

lemma in_flight_inv_wake:
  assumes "in_flight_inv sys" and "i < length (tasks sys)"
  shows "in_flight_inv (wake i sys)"
proof -
  from assms have up: "uploading (page sys)"
    by (auto simp: in_flight_inv_def split: if_splits)
  with assms(1) consider "tasks sys = [suspended_at_scan]" | "tasks sys = [suspended_at_parse]"
    by (auto simp: in_flight_inv_def)
  then show ?thesis
  proof cases
    case 1
    with assms(2) have "i = 0" by simp
    with 1 up show ?thesis by (simp add: wake_scan in_flight_inv_def)
  next
    case 2
    with assms(2) have "i = 0" by simp
    with 2 show ?thesis by (simp add: wake_parse in_flight_inv_def)
  qed
qed

lemma reachable_in_flight_inv: "reachable sys \<Longrightarrow> in_flight_inv sys"
proof (induction rule: reachable.induct)
  case start
  show ?case by (simp add: in_flight_inv_def initial_system_def initial_page_def)
next
  case (call sys fl)
  then show ?case by (simp add: in_flight_inv_invoke)
next
  case (timer sys i)
  then show ?case by (simp add: in_flight_inv_wake)
qed

lemma wake_moves_forward:
  assumes "in_flight_inv sys" and "i < length (tasks sys)"
  shows "\<exists>r r'. resumeState (page sys) = Some r \<and> resumeState (page (wake i sys)) = Some r' \<and>
           stage r < stage r'"
proof -
  from assms have up: "uploading (page sys)"
    by (auto simp: in_flight_inv_def split: if_splits)
  with assms(1) consider
      "tasks sys = [suspended_at_scan]" "resumeState (page sys) = Some uploaded"
    | "tasks sys = [suspended_at_parse]" "resumeState (page sys) = Some scanned"
    by (auto simp: in_flight_inv_def)
  then show ?thesis
  proof cases
    case 1
    with assms(2) have "i = 0" by simp
    with 1 show ?thesis by (simp add: wake_scan)
  next
    case 2
    with assms(2) have "i = 0" by simp
    with 2 show ?thesis by (simp add: wake_parse)
  qed
qed

subsection \<open>The example inputs\<close>

lemma type_photo_png: "type photo_png \<notin> set allowed"
  by (simp add: photo_png_def allowed_def)

lemma type_skills_docx: "type skills_docx \<in> set allowed"
  by (simp add: skills_docx_def docx_mime_def allowed_def)

lemma type_infected_pdf: "type infected_pdf \<in> set allowed"
  by (simp add: infected_pdf_def pdf_mime_def allowed_def)

lemma type_huge_pdf: "type huge_pdf \<in> set allowed"
  by (simp add: huge_pdf_def pdf_mime_def allowed_def)

lemma idle_initial_page: "\<not> uploading initial_page"
  by (simp add: initial_page_def)

lemma uploading_busy_page: "uploading busy_page"
  by (simp add: busy_page_def)

lemma invoke_initial:
  "invoke (Some skills_docx) initial_system = \<lparr>page = busy_page, tasks = [suspended_at_scan]\<rparr>"
  by (simp add: invoke_accept type_skills_docx initial_system_def initial_page_def busy_page_def)

lemma reachable_busy: "reachable (invoke (Some skills_docx) initial_system)"
  by (intro reachable.intros)

subsection \<open>Rejection of an unsupported format\<close>

text \<open>
  Claim C1, as amended: for every submitted file whose mime type is neither PDF nor DOCX,
  when no upload is in progress, the handler rejects the file synchronously: its only
  action is to set the error message "Please upload a PDF or DOCX file."; it does not
  wait, it writes no resume state (nothing is recorded as uploaded), and the displayed
  resume state is left unchanged.
\<close>

theorem unsupported_format_rejected:
  assumes "type f \<noteq> pdf_mime" and "type f \<noteq> docx_mime" and "\<not> uploading st"
  shows "handleFile (Some f) st = [SetUploadError (Some ''Please upload a PDF or DOCX file.'')] \<and>
    list_all (\<lambda>a. \<not> is_await a) (handleFile (Some f) st) \<and>
    resume_writes (handleFile (Some f) st) = [] \<and>
    run st (handleFile (Some f) st) = st\<lparr>uploadError := Some ''Please upload a PDF or DOCX file.''\<rparr> \<and>
    resumeState (run st (handleFile (Some f) st)) = resumeState st"
proof -
  from assms(1,2) have "type f \<notin> set allowed"
    by (simp add: member_allowed)
  with assms(3) have "handleFile (Some f) st =
      [SetUploadError (Some ''Please upload a PDF or DOCX file.'')]"
    by (simp add: handleFile_reject)
  then show ?thesis by simp
qed

text \<open>Witness for C1: a PNG dropped on the freshly loaded page.\<close>

theorem unsupported_format_rejected_witness:
  "type photo_png \<noteq> pdf_mime \<and> type photo_png \<noteq> docx_mime \<and> \<not> uploading initial_page \<and>
   run initial_page (handleFile (Some photo_png) initial_page) =
     \<lparr>resumeState = None, uploadError = Some ''Please upload a PDF or DOCX file.'',
      uploading = False\<rparr>"
proof -
  have h1: "type photo_png \<noteq> pdf_mime" and h2: "type photo_png \<noteq> docx_mime"
    by (simp_all add: photo_png_def pdf_mime_def docx_mime_def)
  have h3: "\<not> uploading initial_page"
    by (simp add: initial_page_def)
  from unsupported_format_rejected [OF h1 h2 h3] h1 h2 h3 show ?thesis
    by (simp add: initial_page_def)
qed

text \<open>
  Counterexample to C1 as stated: while an upload is being processed (the page state
  reached by choosing a DOCX on the fresh page), a PNG dropped on the drop zone, whose
  \<^verbatim>\<open>onDrop\<close> calls the handler whatever the flag, is ignored by the first test of the
  handler, \<^verbatim>\<open>if (!file || uploading) return;\<close>, and no error message is set.
\<close>

theorem unsupported_format_counterexample:
  "type photo_png \<noteq> pdf_mime \<and> type photo_png \<noteq> docx_mime \<and>
   page (invoke (Some skills_docx) initial_system) = busy_page \<and>
   handleFile (Some photo_png) busy_page = [] \<and>
   uploadError (run busy_page (handleFile (Some photo_png) busy_page)) = None"
proof -
  have "type photo_png \<noteq> pdf_mime" and "type photo_png \<noteq> docx_mime"
    by (simp_all add: photo_png_def pdf_mime_def docx_mime_def)
  moreover have "uploadError busy_page = None"
    by (simp add: busy_page_def)
  ultimately show ?thesis
    by (simp add: invoke_initial handleFile_busy uploading_busy_page)
qed

subsection \<open>Forward progress\<close>

text \<open>
  Claim C2: the resume state never regresses within one run. The states one invocation
  of the handler writes are strictly increasing in the lifecycle order (uploaded before
  scanned before parsed or failed), so none is written twice; in every reachable state
  of the page, each continuation of the run in flight replaces the state shown by a
  strictly later one; and a call of the handler during the run does not touch the state
  shown.
\<close>

theorem resume_state_moves_forward:
  "sorted_wrt (\<lambda>a b. stage a < stage b) (resume_writes (handleFile file st)) \<and>
   distinct (resume_writes (handleFile file st)) \<and>
   (reachable sys \<and> i < length (tasks sys) \<longrightarrow>
      (\<exists>r r'. resumeState (page sys) = Some r \<and> resumeState (page (wake i sys)) = Some r' \<and>
               stage r < stage r')) \<and>
   (reachable sys \<and> uploading (page sys) \<longrightarrow>
      resumeState (page (invoke file' sys)) = resumeState (page sys))"
proof (intro conjI impI)
  show "sorted_wrt (\<lambda>a b. stage a < stage b) (resume_writes (handleFile file st))"
    using handleFile_cases [of "file" st] by auto
  show "distinct (resume_writes (handleFile file st))"
    using handleFile_cases [of "file" st] by auto
next
  assume "reachable sys \<and> i < length (tasks sys)"
  then have "in_flight_inv sys" and "i < length (tasks sys)"
    by (simp_all add: reachable_in_flight_inv)
  then show "\<exists>r r'. resumeState (page sys) = Some r \<and>
      resumeState (page (wake i sys)) = Some r' \<and> stage r < stage r'"
    by (rule wake_moves_forward)
next
  assume "reachable sys \<and> uploading (page sys)"
  then show "resumeState (page (invoke file' sys)) = resumeState (page sys)"
    by (simp add: invoke_busy)
qed

text \<open>
  Witness for C2: after a DOCX is chosen on the fresh page the state shown is uploaded;
  when the first timer fires it is scanned; a PDF dropped in between changes nothing.
\<close>

theorem resume_state_moves_forward_witness:
  "reachable (invoke (Some skills_docx) initial_system) \<and>
   0 < length (tasks (invoke (Some skills_docx) initial_system)) \<and>
   uploading (page (invoke (Some skills_docx) initial_system)) \<and>
   resumeState (page (invoke (Some skills_docx) initial_system)) = Some uploaded \<and>
   resumeState (page (wake 0 (invoke (Some skills_docx) initial_system))) = Some scanned \<and>
   resumeState (page (invoke (Some infected_pdf) (invoke (Some skills_docx) initial_system)))
     = Some uploaded \<and>
   (\<exists>r r'. resumeState (page (invoke (Some skills_docx) initial_system)) = Some r \<and>
      resumeState (page (wake 0 (invoke (Some skills_docx) initial_system))) = Some r' \<and>
      stage r < stage r')"
proof -
  let ?busy = "invoke (Some skills_docx) initial_system"
  have h1: "reachable ?busy"
    by (rule reachable_busy)
  have h2: "0 < length (tasks ?busy)" and h3: "uploading (page ?busy)"
    by (simp_all add: invoke_initial busy_page_def)
  have shown: "resumeState (page ?busy) = Some uploaded"
    "resumeState (page (wake 0 ?busy)) = Some scanned"
    by (simp_all add: invoke_initial wake_scan busy_page_def)
  from resume_state_moves_forward [where sys = ?busy and i = 0 and file' = "Some infected_pdf"]
    h1 h2 h3 shown
  show ?thesis by simp
qed

subsection \<open>The states of the lifecycle\<close>

text \<open>
  Claim C3, as amended: the resume lifecycle state takes values from the four-state set
  uploaded, scanned, parsed, failed, and every successful run (one that writes parsed)
  passes through exactly uploaded, then scanned, then parsed; the source has no states
  SCANNING, EXTRACTING or PARSING, and none is entered.
\<close>

theorem four_state_lifecycle:
  "(UNIV :: ResumeState set) = {uploaded, scanned, parsed, failed} \<and>
   (parsed \<in> set (resume_writes (handleFile file st)) \<longrightarrow>
      map lifecycle_of (resume_writes (handleFile file st)) = [UPLOADED, SCANNED, PARSED])"
proof
  have "r \<in> {uploaded, scanned, parsed, failed}" for r :: ResumeState
    by (cases r) simp_all
  then show "(UNIV :: ResumeState set) = {uploaded, scanned, parsed, failed}"
    by blast
  show "parsed \<in> set (resume_writes (handleFile file st)) \<longrightarrow>
      map lifecycle_of (resume_writes (handleFile file st)) = [UPLOADED, SCANNED, PARSED]"
    using handleFile_cases [of "file" st] by auto
qed

text \<open>Witness for C3: the run started by a DOCX on the fresh page.\<close>

theorem four_state_lifecycle_witness:
  "parsed \<in> set (resume_writes (handleFile (Some skills_docx) initial_page)) \<and>
   map lifecycle_of (resume_writes (handleFile (Some skills_docx) initial_page)) =
     [UPLOADED, SCANNED, PARSED]"
proof -
  have h: "parsed \<in> set (resume_writes (handleFile (Some skills_docx) initial_page))"
    by (simp add: handleFile_accept type_skills_docx idle_initial_page)
  with four_state_lifecycle [of "Some skills_docx" initial_page] show ?thesis
    by blast
qed

text \<open>
  Counterexample to C3 as stated: the run started by a DOCX on the fresh page is
  successful, and it enters none of SCANNING, EXTRACTING and PARSING.
\<close>

theorem intermediate_states_counterexample:
  "last (resume_writes (handleFile (Some skills_docx) initial_page)) = parsed \<and>
   SCANNING \<notin> set (map lifecycle_of (resume_writes (handleFile (Some skills_docx) initial_page))) \<and>
   EXTRACTING \<notin> set (map lifecycle_of (resume_writes (handleFile (Some skills_docx) initial_page))) \<and>
   PARSING \<notin> set (map lifecycle_of (resume_writes (handleFile (Some skills_docx) initial_page)))"
  by (simp add: handleFile_accept type_skills_docx idle_initial_page)

subsection \<open>No scan stage\<close>

text \<open>
  Claim C4, as amended: for every accepted document, whatever verdict a malware scanner
  gives on its bytes, the upload handler (when no upload is in progress) scans nothing:
  the run writes uploaded, scanned, parsed and ends in parsed, failed is never written,
  no error is set (the error message is cleared), and the handler does nothing else, so
  there is no retry and no ExtractedProfile either.
\<close>

theorem no_scan_rejection_path:
  assumes "type f \<in> set allowed" and "\<not> uploading st" and "scan (bytes f) = Rejected reason"
  shows "handleFile (Some f) st =
      [SetUploadError None, SetUploading True, SetResumeState uploaded, Await 600,
       SetResumeState scanned, Await 800, SetResumeState parsed, SetUploading False] \<and>
    resume_writes (handleFile (Some f) st) = [uploaded, scanned, parsed] \<and>
    error_writes (handleFile (Some f) st) = [] \<and>
    run st (handleFile (Some f) st) =
      st\<lparr>resumeState := Some parsed, uploadError := None, uploading := False\<rparr>"
  using assms(1,2) by (simp add: handleFile_accept)

text \<open>Witness for C4: a PDF that the example scanner rejects, dropped on the fresh page.\<close>

theorem no_scan_rejection_path_witness:
  "type infected_pdf \<in> set allowed \<and> \<not> uploading initial_page \<and>
   marker_scanner (bytes infected_pdf) = Rejected ''EICAR-Test-File'' \<and>
   resume_writes (handleFile (Some infected_pdf) initial_page) = [uploaded, scanned, parsed] \<and>
   error_writes (handleFile (Some infected_pdf) initial_page) = [] \<and>
   run initial_page (handleFile (Some infected_pdf) initial_page) =
     \<lparr>resumeState = Some parsed, uploadError = None, uploading = False\<rparr>"
proof -
  have h3: "marker_scanner (bytes infected_pdf) = Rejected ''EICAR-Test-File''"
    by (simp add: marker_scanner_def infected_pdf_def)
  from no_scan_rejection_path [where f = infected_pdf and st = initial_page
      and scan = marker_scanner and reason = "''EICAR-Test-File''"]
    type_infected_pdf idle_initial_page h3
  show ?thesis by (simp add: initial_page_def)
qed

text \<open>
  Counterexample to C4 as stated: the PDF is accepted, the example scanner rejects its
  bytes, and the run ends in parsed, not in failed, with no error.
\<close>

theorem malware_scan_counterexample:
  "type infected_pdf \<in> set allowed \<and>
   marker_scanner (bytes infected_pdf) = Rejected ''EICAR-Test-File'' \<and>
   resumeState (run initial_page (handleFile (Some infected_pdf) initial_page)) = Some parsed \<and>
   resumeState (run initial_page (handleFile (Some infected_pdf) initial_page)) \<noteq> Some failed \<and>
   uploadError (run initial_page (handleFile (Some infected_pdf) initial_page)) = None"
proof -
  have "marker_scanner (bytes infected_pdf) = Rejected ''EICAR-Test-File''"
    by (simp add: marker_scanner_def infected_pdf_def)
  then show ?thesis
    by (simp add: handleFile_accept type_infected_pdf idle_initial_page)
qed

subsection \<open>One upload at a time\<close>

text \<open>
  Claim C6: at most one run is in flight at a time. Calling the upload handler while the
  flag uploading is set does nothing: the invocation has no action, starts no run and
  leaves the whole system (page state and suspended runs) as it is. In every reachable
  state at most one invocation is suspended, and one is suspended exactly when the flag
  is set.
\<close>

theorem one_upload_in_flight:
  "(uploading (page sys) \<longrightarrow> handleFile file (page sys) = [] \<and> invoke file sys = sys) \<and>
   (reachable sys \<longrightarrow> length (tasks sys) \<le> 1 \<and> (tasks sys \<noteq> [] \<longleftrightarrow> uploading (page sys)))"
proof (intro conjI impI)
  assume "uploading (page sys)"
  then show "handleFile file (page sys) = []" and "invoke file sys = sys"
    by (simp_all add: handleFile_busy invoke_busy)
next
  assume "reachable sys"
  then have "in_flight_inv sys"
    by (rule reachable_in_flight_inv)
  then show "length (tasks sys) \<le> 1" and "tasks sys \<noteq> [] \<longleftrightarrow> uploading (page sys)"
    by (auto simp: in_flight_inv_def split: if_splits)
qed

text \<open>
  Witness for C6: a DOCX is being processed when a PDF is dropped; the drop changes
  nothing and one run stays in flight.
\<close>

theorem one_upload_in_flight_witness:
  "uploading (page (invoke (Some skills_docx) initial_system)) \<and>
   reachable (invoke (Some skills_docx) initial_system) \<and>
   handleFile (Some infected_pdf) (page (invoke (Some skills_docx) initial_system)) = [] \<and>
   invoke (Some infected_pdf) (invoke (Some skills_docx) initial_system) =
     invoke (Some skills_docx) initial_system \<and>
   length (tasks (invoke (Some skills_docx) initial_system)) \<le> 1"
proof -
  have h1: "uploading (page (invoke (Some skills_docx) initial_system))"
    by (simp add: invoke_initial uploading_busy_page)
  from one_upload_in_flight [of "invoke (Some skills_docx) initial_system" "Some infected_pdf"]
    h1 reachable_busy
  show ?thesis by blast
qed

subsection \<open>No byte ceiling\<close>

text \<open>
  Claim C8, as amended: the upload handler has no byte ceiling. When no upload is in
  progress, what it does with a file is decided by the mime type alone: a PDF or DOCX is
  accepted whatever its byte size, also above any limit (the error message is cleared, no
  error is set, and the run goes through uploaded, scanned and parsed), and the only
  synchronous rejection is that of an unsupported mime type: an error is set exactly when
  the type is neither PDF nor DOCX, and then it is the only action. Replacing the content
  of the file, and with it the size, never changes what the handler does, and no
  invocation sets any error but "Please upload a PDF or DOCX file.".
\<close>

theorem no_byte_ceiling:
  assumes "\<not> uploading st"
  shows "(type f \<in> set allowed \<and> limit < size_File f \<longrightarrow>
       handleFile (Some f) st =
         [SetUploadError None, SetUploading True, SetResumeState uploaded, Await 600,
          SetResumeState scanned, Await 800, SetResumeState parsed, SetUploading False] \<and>
       error_writes (handleFile (Some f) st) = [] \<and>
       uploadError (run st (handleFile (Some f) st)) = None) \<and>
    handleFile (Some f) st =
      (if type f \<in> set allowed
       then [SetUploadError None, SetUploading True, SetResumeState uploaded, Await 600,
             SetResumeState scanned, Await 800, SetResumeState parsed, SetUploading False]
       else [SetUploadError (Some ''Please upload a PDF or DOCX file.'')]) \<and>
    (error_writes (handleFile (Some f) st) \<noteq> [] \<longleftrightarrow> type f \<notin> set allowed) \<and>
    handleFile (Some (f\<lparr>bytes := b\<rparr>)) st' = handleFile (Some f) st' \<and>
    set (error_writes (handleFile file' st')) \<subseteq> {''Please upload a PDF or DOCX file.''}"
proof -
  have shape: "handleFile (Some f) st =
      (if type f \<in> set allowed
       then [SetUploadError None, SetUploading True, SetResumeState uploaded, Await 600,
             SetResumeState scanned, Await 800, SetResumeState parsed, SetUploading False]
       else [SetUploadError (Some ''Please upload a PDF or DOCX file.'')])"
    using assms by (simp add: handleFile_accept handleFile_reject)
  have content: "handleFile (Some (f\<lparr>bytes := b\<rparr>)) st' = handleFile (Some f) st'"
    by (simp add: handleFile_def)
  have errors: "set (error_writes (handleFile file' st')) \<subseteq> {''Please upload a PDF or DOCX file.''}"
    using handleFile_cases [of file' st'] by auto
  from shape have "error_writes (handleFile (Some f) st) \<noteq> [] \<longleftrightarrow> type f \<notin> set allowed"
    by simp
  moreover from shape have "type f \<in> set allowed \<and> limit < size_File f \<longrightarrow>
       handleFile (Some f) st =
         [SetUploadError None, SetUploading True, SetResumeState uploaded, Await 600,
          SetResumeState scanned, Await 800, SetResumeState parsed, SetUploading False] \<and>
       error_writes (handleFile (Some f) st) = [] \<and>
       uploadError (run st (handleFile (Some f) st)) = None"
    by simp
  ultimately show ?thesis
    using shape content errors by blast
qed

text \<open>
  Witness for C8: a PDF of twenty million bytes against a limit of ten mebibytes is
  accepted on the fresh page, and a PNG of four bytes is rejected there.
\<close>

theorem no_byte_ceiling_witness:
  "\<not> uploading initial_page \<and> type huge_pdf \<in> set allowed \<and>
   (10485760 :: nat) < size_File huge_pdf \<and>
   error_writes (handleFile (Some huge_pdf) initial_page) = [] \<and>
   uploadError (run initial_page (handleFile (Some huge_pdf) initial_page)) = None \<and>
   size_File photo_png = 4 \<and>
   error_writes (handleFile (Some photo_png) initial_page) \<noteq> []"
proof -
  have h3: "(10485760 :: nat) < size_File huge_pdf"
    by (simp add: size_File_def huge_pdf_def)
  have small: "size_File photo_png = 4"
    by (simp add: size_File_def photo_png_def)
  from no_byte_ceiling [OF idle_initial_page, where f = huge_pdf and limit = 10485760]
    no_byte_ceiling [OF idle_initial_page, where f = photo_png]
    type_huge_pdf type_photo_png idle_initial_page h3 small
  show ?thesis by blast
qed

text \<open>
  Counterexample to C8 as stated: with a ceiling of ten mebibytes, the PDF of twenty
  million bytes is not rejected; no error is set and the state uploaded is written.
\<close>

theorem byte_ceiling_counterexample:
  "(10485760 :: nat) < size_File huge_pdf \<and> type huge_pdf \<in> set allowed \<and>
   error_writes (handleFile (Some huge_pdf) initial_page) = [] \<and>
   uploadError (run initial_page (handleFile (Some huge_pdf) initial_page)) = None \<and>
   resume_writes (handleFile (Some huge_pdf) initial_page) = [uploaded, scanned, parsed]"
proof -
  have "(10485760 :: nat) < size_File huge_pdf"
    by (simp add: size_File_def huge_pdf_def)
  then show ?thesis
    by (simp add: handleFile_accept type_huge_pdf idle_initial_page)
qed

subsection \<open>An accepted upload ends in parsed\<close>

text \<open>
  Claim C9, as amended: for every file whose mime type is PDF or DOCX, when no upload is
  in progress, the upload handler terminates in the state parsed: it writes exactly
  uploaded, then scanned, then parsed, whatever the content of the file, and once its two
  timers have fired the system is at rest with parsed shown and the flag uploading
  cleared. The state failed is unreachable: no invocation writes it and no reachable
  state of the page shows it.
\<close>

theorem accepted_upload_reaches_parsed:
  assumes "type f = pdf_mime \<or> type f = docx_mime" and "\<not> uploading st"
  shows "resume_writes (handleFile (Some f) st) = [uploaded, scanned, parsed] \<and>
    resumeState (run st (handleFile (Some f) st)) = Some parsed \<and>
    handleFile (Some (f\<lparr>bytes := b\<rparr>)) st = handleFile (Some f) st \<and>
    wake 0 (wake 0 (invoke (Some f) \<lparr>page = st, tasks = []\<rparr>)) =
      \<lparr>page = st\<lparr>uploadError := None, uploading := False, resumeState := Some parsed\<rparr>,
       tasks = []\<rparr> \<and>
    failed \<notin> set (resume_writes (handleFile file' st')) \<and>
    (reachable sys \<longrightarrow> resumeState (page sys) \<noteq> Some failed)"
proof -
  from assms(1) have ok: "type f \<in> set allowed"
    by (simp add: member_allowed)
  then have ok': "type (f\<lparr>bytes := b\<rparr>) \<in> set allowed"
    by simp
  have "wake 0 (wake 0 (invoke (Some f) \<lparr>page = st, tasks = []\<rparr>)) =
      \<lparr>page = st\<lparr>uploadError := None, uploading := False, resumeState := Some parsed\<rparr>,
       tasks = []\<rparr>"
    using ok assms(2) by (simp add: invoke_accept wake_scan wake_parse)
  moreover have "failed \<notin> set (resume_writes (handleFile file' st'))"
    using handleFile_cases [of file' st'] by auto
  moreover have "reachable sys \<longrightarrow> resumeState (page sys) \<noteq> Some failed"
    using reachable_in_flight_inv [of sys] by (simp add: in_flight_inv_def)
  ultimately show ?thesis
    using ok ok' assms(2) by (simp add: handleFile_accept)
qed

text \<open>
  Witness for C9: a DOCX chosen on the fresh page; after both timers the page shows
  parsed, and that state is reachable.
\<close>

theorem accepted_upload_reaches_parsed_witness:
  "(type skills_docx = pdf_mime \<or> type skills_docx = docx_mime) \<and> \<not> uploading initial_page \<and>
   reachable (wake 0 (wake 0 (invoke (Some skills_docx) initial_system))) \<and>
   wake 0 (wake 0 (invoke (Some skills_docx) initial_system)) =
     \<lparr>page = \<lparr>resumeState = Some parsed, uploadError = None, uploading = False\<rparr>, tasks = []\<rparr> \<and>
   resumeState (page (wake 0 (wake 0 (invoke (Some skills_docx) initial_system)))) \<noteq> Some failed"
proof -
  let ?done = "wake 0 (wake 0 (invoke (Some skills_docx) initial_system))"
  have h1: "type skills_docx = pdf_mime \<or> type skills_docx = docx_mime"
    by (simp add: skills_docx_def)
  have s2: "reachable (wake 0 (invoke (Some skills_docx) initial_system))"
    by (rule reachable.timer [OF reachable_busy]) (simp add: invoke_initial)
  have h3: "reachable ?done"
    by (rule reachable.timer [OF s2]) (simp add: invoke_initial wake_scan)
  from accepted_upload_reaches_parsed [OF h1 idle_initial_page, where sys = ?done]
    h1 idle_initial_page h3
  show ?thesis by (simp add: initial_system_def initial_page_def)
qed

text \<open>
  Counterexample to C9 as stated: a DOCX dropped while another upload is being processed
  is ignored; that invocation writes no state at all and ends with uploaded shown.
\<close>

theorem always_parsed_counterexample:
  "type skills_docx = docx_mime \<and>
   page (invoke (Some infected_pdf) initial_system) = busy_page \<and>
   resume_writes (handleFile (Some skills_docx) busy_page) = [] \<and>
   resumeState (run busy_page (handleFile (Some skills_docx) busy_page)) = Some uploaded"
proof -
  have "page (invoke (Some infected_pdf) initial_system) = busy_page"
    by (simp add: invoke_accept type_infected_pdf initial_system_def initial_page_def
          busy_page_def)
  moreover have "type skills_docx = docx_mime"
    by (simp add: skills_docx_def)
  moreover have "resumeState busy_page = Some uploaded"
    by (simp add: busy_page_def)
  ultimately show ?thesis
    by (simp add: handleFile_busy uploading_busy_page)
qed

section \<open>Properties of the API client\<close>

lemma apiRequest_fetch_fails:
  "\<exists>m. apiRequest cfg JSON_parse (\<lambda>req. Inl err) path options =
    Inr (ErrorResult
      \<lparr>detail = JString (''Network error. Check API URL and CORS settings. ('' @ m @ '')''),
       statusCode = 0\<rparr>)"
  by (simp add: apiRequest_def Let_def)

lemma apiRequest_body_readable:
  assumes "\<And>req res. fetch req = Inr res \<Longrightarrow> \<exists>t. text_of res = Inr t"
  shows "\<exists>r. apiRequest cfg JSON_parse fetch path options = Inr r"
  using assms
  by (fastforce simp: apiRequest_def Let_def parseResponse_def split: sum.splits)

lemma apiRequest_not_ok:
  assumes "\<And>req. fetch req = Inr res" and "text_of res = Inr t" and "\<not> ok res"
  shows "apiRequest cfg JSON_parse fetch path options =
     Inr (ErrorResult
       \<lparr>detail = detail_of (if t = [] then None else JSON_parse t) (statusText res),
        statusCode = status res\<rparr>)"
  using assms by (simp add: apiRequest_def Let_def parseResponse_def)

text \<open>
  Claim C10, at the failing input: \<^verbatim>\<open>fetch\<close> resolves with a response of status 200
  whose body cannot be read (\<^verbatim>\<open>res.text()\<close> rejects). For every path and options the
  promise of \<^verbatim>\<open>apiRequest\<close> is then rejected with that error: the client throws, where the
  claim has it return \<^verbatim>\<open>{ error }\<close> with status code 0.
\<close>

theorem apiRequest_rejects_when_body_lost:
  "ok \<lparr>status = 200, statusText = ''OK'', text_of = Inl (Error ''network error'')\<rparr> \<and>
   apiRequest cfg JSON_parse body_lost path options = Inl (Error ''network error'')"
  by (simp add: apiRequest_def Let_def parseResponse_def body_lost_def ok_def)

section \<open>Properties of the Active-Resume Resolver\<close>

lemma active_on_failed: "active (on_failed rid owner b) = active b"
  by (simp add: on_failed_def)

text \<open>
  Claim C5: a run that ends in FAILED leaves the active resume pointer of every user
  unchanged, so a failed re-upload leaves the previously active resume in place; a
  re-upload that reaches PARSED, submitted no earlier than the resume the pointer names,
  moves the pointer of its owner to the new resume id.
\<close>

theorem failed_run_keeps_active_resume:
  "active (complete_failed rid code msg now b) = active b \<and>
   (records b rid = Some d \<and>
    (\<forall>cur d'. active b (owner_id d) = Some cur \<and> records b cur = Some d'
        \<longrightarrow> created_at d' \<le> created_at d)
    \<longrightarrow> active (complete_parsed rid profile now b) (owner_id d) = Some rid)"
proof (intro conjI impI)
  show "active (complete_failed rid code msg now b) = active b"
    by (simp add: complete_failed_def on_failed_def split: option.split)
next
  assume "records b rid = Some d \<and>
    (\<forall>cur d'. active b (owner_id d) = Some cur \<and> records b cur = Some d'
        \<longrightarrow> created_at d' \<le> created_at d)"
  then show "active (complete_parsed rid profile now b) (owner_id d) = Some rid"
    by (auto simp: complete_parsed_def on_parsed_def split: option.split)
qed

text \<open>
  Witness for C5: user 7 re-uploads; if the new resume fails resume 1 stays active, if
  it is parsed resume 2 becomes active.
\<close>

theorem failed_run_keeps_active_resume_witness:
  "records reupload_backend 2 = Some second_resume \<and>
   active reupload_backend 7 = Some 1 \<and>
   created_at first_resume \<le> created_at second_resume \<and>
   active (complete_failed 2 ParsingFailed ''no usable field'' 25 reupload_backend) 7 = Some 1 \<and>
   active (complete_parsed 2 501 25 reupload_backend) 7 = Some 2"
proof -
  have h1: "records reupload_backend 2 = Some second_resume"
    by (simp add: reupload_backend_def)
  have h2: "\<forall>cur d'. active reupload_backend (owner_id second_resume) = Some cur \<and>
        records reupload_backend cur = Some d'
        \<longrightarrow> created_at d' \<le> created_at second_resume"
    by (simp add: reupload_backend_def second_resume_def first_resume_def)
  have o: "owner_id second_resume = 7" and a: "active reupload_backend 7 = Some 1"
    and t: "created_at first_resume \<le> created_at second_resume"
    by (simp_all add: second_resume_def first_resume_def reupload_backend_def)
  from failed_run_keeps_active_resume [where rid = 2 and b = reupload_backend
      and d = second_resume and code = ParsingFailed and msg = "''no usable field''"
      and now = 25 and profile = 501] h1 h2 o a t
  show ?thesis by simp
qed

end
